theory Spec2Isabelle
  imports Main
begin

section \<open>Python built-ins used by the demonstration scripts\<close>

text \<open>
  The scripts are straight-line Python: every statement applies a built-in operation to a
  literal or to a local variable. Each built-in the scripts use is given here as a HOL
  function; where Python raises, the function returns the exception as a value
  (\<open>Inl\<close> of a \<open>py_error\<close>).
\<close>

datatype py_error = IndexError | ZeroDivisionError | ValueError | OverflowError

subsection \<open>Integers as text: \<open>str(n)\<close> and \<open>f"{n}"\<close>\<close>

definition digit_char :: "nat \<Rightarrow> char" where
  "digit_char d = ''0123456789'' ! (d mod 10)"

fun nat_digits :: "nat \<Rightarrow> string" where
  "nat_digits n =
     (if n < 10 then [digit_char n] else nat_digits (n div 10) @ [digit_char (n mod 10)])"

declare nat_digits.simps [simp del]

definition str_int :: "int \<Rightarrow> string" where
  "str_int n = (if n < 0 then CHR ''-'' # nat_digits (nat (- n)) else nat_digits (nat n))"

subsection \<open>Standard output\<close>

text \<open>
  Standard output is the text written so far. \<open>print(s)\<close> appends \<open>s\<close> and a newline;
  \<open>print(s, end="")\<close> appends \<open>s\<close> alone.
\<close>

definition py_print :: "string \<Rightarrow> string \<Rightarrow> string" where
  "py_print out s = out @ s @ ''\<newline>''"

definition py_print_end :: "'c list \<Rightarrow> 'c list \<Rightarrow> 'c list \<Rightarrow> 'c list" where
  "py_print_end out s e = out @ s @ e"

text \<open>The lines of an output text: the pieces between newline characters.\<close>

fun lines_from :: "string \<Rightarrow> string \<Rightarrow> string list" where
  "lines_from cur [] = (if cur = [] then [] else [cur])"
| "lines_from cur (c # cs) =
     (if c = CHR ''\<newline>'' then cur # lines_from [] cs else lines_from (cur @ [c]) cs)"

definition output_lines :: "string \<Rightarrow> string list" where
  "output_lines out = lines_from [] out"

subsection \<open>Indexing a list: \<open>items[i]\<close>\<close>

definition list_getitem :: "'a list \<Rightarrow> int \<Rightarrow> py_error + 'a" where
  "list_getitem items i =
     (if i < 0
      then (if - i \<le> int (length items)
            then Inr (items ! nat (int (length items) + i)) else Inl IndexError)
      else (if i < int (length items) then Inr (items ! nat i) else Inl IndexError))"

subsection \<open>Sequencing operations that may raise\<close>

definition bind_err :: "py_error + 'a \<Rightarrow> ('a \<Rightarrow> py_error + 'b) \<Rightarrow> py_error + 'b" where
  "bind_err r f = (case r of Inl err \<Rightarrow> Inl err | Inr v \<Rightarrow> f v)"

subsection \<open>Padding: \<open>{s:<w}\<close>, \<open>{s:>w}\<close> and zero fill\<close>

definition ljust :: "nat \<Rightarrow> 'c \<Rightarrow> 'c list \<Rightarrow> 'c list" where
  "ljust w fill s = s @ replicate (w - length s) fill"

definition rjust :: "nat \<Rightarrow> 'c \<Rightarrow> 'c list \<Rightarrow> 'c list" where
  "rjust w fill s = replicate (w - length s) fill @ s"

subsection \<open>Floats: IEEE 754 binary64, round to nearest, ties to even\<close>

text \<open>
  \<open>Finite s m e\<close> is the double \<open>(-1)\<^sup>s * m * 2\<^sup>e\<close>. The operations below produce the
  unique representation with \<open>m < 2\<^sup>5\<^sup>3\<close> and either \<open>2\<^sup>5\<^sup>2 \<le> m\<close> (normal,
  \<open>-1074 \<le> e \<le> 971\<close>) or \<open>e = -1074\<close> (subnormal); zero is \<open>Finite s 0 0\<close>.
\<close>

datatype pyfloat = Finite bool nat int | Infinity bool | NaN

fun bitlen :: "nat \<Rightarrow> int" where
  "bitlen n = (if n = 0 then 0 else 1 + bitlen (n div 2))"

declare bitlen.simps [simp del]

text \<open>The integer nearest to \<open>p / q\<close>, the even one of two equally near.\<close>

definition round_half_even :: "nat \<Rightarrow> nat \<Rightarrow> nat" where
  "round_half_even p q =
     (let m = p div q; r = p mod q
      in if 2 * r < q then m else if q < 2 * r then m + 1 else if even m then m else m + 1)"

text \<open>Numerator and denominator of \<open>(p / q) / 2\<^sup>e\<close>.\<close>

definition scale2 :: "nat \<Rightarrow> nat \<Rightarrow> int \<Rightarrow> nat \<times> nat" where
  "scale2 p q e = (if 0 \<le> e then (p, q * 2 ^ nat e) else (p * 2 ^ nat (- e), q))"

text \<open>The double nearest to \<open>(-1)\<^sup>s * p / q\<close>; beyond the largest double, infinity.\<close>

definition round_ratio :: "bool \<Rightarrow> nat \<Rightarrow> nat \<Rightarrow> pyfloat" where
  "round_ratio s p q =
     (if p = 0 then Finite s 0 0
      else
        let e0 = bitlen p - bitlen q - 53;
            e1 = (case scale2 p q e0 of (n0, d0) \<Rightarrow> if 2 ^ 53 \<le> n0 div d0 then e0 + 1 else e0);
            e = max e1 (- 1074);
            m = (case scale2 p q e of (n, d) \<Rightarrow> round_half_even n d)
        in if m = 2 ^ 53
           then (if 971 < e + 1 then Infinity s else Finite s (2 ^ 52) (e + 1))
           else if m = 0 then Finite s 0 0
           else (if 971 < e then Infinity s else Finite s m e))"

text \<open>A float literal with decimal digits \<open>d\<close> and decimal exponent \<open>k\<close>: \<open>29.99\<close> is
  \<open>float_lit 2999 (-2)\<close>.\<close>

definition float_lit :: "nat \<Rightarrow> int \<Rightarrow> pyfloat" where
  "float_lit d k =
     (if 0 \<le> k then round_ratio False (d * 10 ^ nat k) 1 else round_ratio False d (10 ^ nat (- k)))"

definition signed :: "bool \<Rightarrow> nat \<Rightarrow> int" where
  "signed s m = (if s then - int m else int m)"

fun float_add :: "pyfloat \<Rightarrow> pyfloat \<Rightarrow> pyfloat" where
  "float_add (Finite s m e) (Finite t n f) =
     (let g = min e f;
          v = signed s (m * 2 ^ nat (e - g)) + signed t (n * 2 ^ nat (f - g))
      in if v = 0 then Finite (s \<and> t) 0 0
         else (case scale2 (nat \<bar>v\<bar>) 1 (- g) of (p, q) \<Rightarrow> round_ratio (v < 0) p q))"
| "float_add NaN y = NaN"
| "float_add x NaN = NaN"
| "float_add (Infinity s) (Infinity t) = (if s = t then Infinity s else NaN)"
| "float_add (Infinity s) y = Infinity s"
| "float_add x (Infinity t) = Infinity t"

fun float_mul :: "pyfloat \<Rightarrow> pyfloat \<Rightarrow> pyfloat" where
  "float_mul (Finite s m e) (Finite t n f) =
     (case scale2 (m * n) 1 (- (e + f)) of (p, q) \<Rightarrow> round_ratio (s \<noteq> t) p q)"
| "float_mul NaN y = NaN"
| "float_mul x NaN = NaN"
| "float_mul (Infinity s) (Infinity t) = Infinity (s \<noteq> t)"
| "float_mul (Infinity s) (Finite t n f) = (if n = 0 then NaN else Infinity (s \<noteq> t))"
| "float_mul (Finite s m e) (Infinity t) = (if m = 0 then NaN else Infinity (s \<noteq> t))"

declare float_add.simps [simp del] float_mul.simps [simp del]

text \<open>\<open>x == y\<close> on floats: the two zeros are equal, NaN equals nothing.\<close>

fun float_eq :: "pyfloat \<Rightarrow> pyfloat \<Rightarrow> bool" where
  "float_eq (Finite s m e) (Finite t n f) = ((m = 0 \<and> n = 0) \<or> (s = t \<and> m = n \<and> e = f))"
| "float_eq (Infinity s) (Infinity t) = (s = t)"
| "float_eq x y = False"

text \<open>\<open>float(i)\<close> and the implicit conversion of an int operand: the nearest double,
  OverflowError when there is none.\<close>

definition float_of_int :: "int \<Rightarrow> py_error + pyfloat" where
  "float_of_int i =
     (case round_ratio (i < 0) (nat \<bar>i\<bar>) 1 of
        Infinity s \<Rightarrow> Inl OverflowError
      | x \<Rightarrow> Inr x)"

text \<open>A number is an int or a float; arithmetic converts the int operand of a mixed pair.\<close>

datatype pynum = PInt int | PFloat pyfloat

fun as_float :: "pynum \<Rightarrow> py_error + pyfloat" where
  "as_float (PInt i) = float_of_int i"
| "as_float (PFloat x) = Inr x"

fun num_add :: "pynum \<Rightarrow> pynum \<Rightarrow> py_error + pynum" where
  "num_add (PInt a) (PInt b) = Inr (PInt (a + b))"
| "num_add x y =
     bind_err (as_float x) (\<lambda>u. bind_err (as_float y) (\<lambda>v. Inr (PFloat (float_add u v))))"

fun num_mul :: "pynum \<Rightarrow> pynum \<Rightarrow> py_error + pynum" where
  "num_mul (PInt a) (PInt b) = Inr (PInt (a * b))"
| "num_mul x y =
     bind_err (as_float x) (\<lambda>u. bind_err (as_float y) (\<lambda>v. Inr (PFloat (float_mul u v))))"

subsection \<open>Fixed-point formatting: \<open>{x:.2f}\<close>\<close>

text \<open>
  The decimal with \<open>prec\<close> digits after the point nearest to the exact value of the
  double, the even one of two equally near.
\<close>

definition fixed_digits :: "nat \<Rightarrow> nat \<Rightarrow> int \<Rightarrow> nat" where
  "fixed_digits prec m e = (case scale2 (m * 10 ^ prec) 1 (- e) of (n, d) \<Rightarrow> round_half_even n d)"

definition insert_point :: "nat \<Rightarrow> string \<Rightarrow> string" where
  "insert_point prec ds =
     (if prec = 0 then ds
      else take (length ds - prec) ds @ CHR ''.'' # drop (length ds - prec) ds)"

fun format_fixed :: "nat \<Rightarrow> pyfloat \<Rightarrow> string" where
  "format_fixed prec (Finite s m e) =
     (if s then ''-'' else [])
       @ insert_point prec (rjust (prec + 1) CHR ''0'' (nat_digits (fixed_digits prec m e)))"
| "format_fixed prec (Infinity s) = (if s then ''-inf'' else ''inf'')"
| "format_fixed prec NaN = ''nan''"

text \<open>\<open>f"{x:>w.pf}"\<close> for a number \<open>x\<close>: an int is converted to a float first.\<close>

definition format_num_fixed :: "nat \<Rightarrow> nat \<Rightarrow> pynum \<Rightarrow> py_error + string" where
  "format_num_fixed w prec x =
     bind_err (as_float x) (\<lambda>u. Inr (rjust w CHR '' '' (format_fixed prec u)))"

subsection \<open>Integer division, repetition and ranges\<close>

text \<open>\<open>a // b\<close> and \<open>a % b\<close> on ints round towards minus infinity, as \<open>div\<close> and \<open>mod\<close>
  do; \<open>a / b\<close> is the double nearest to the quotient.\<close>

definition py_floordiv :: "int \<Rightarrow> int \<Rightarrow> py_error + int" where
  "py_floordiv a b = (if b = 0 then Inl ZeroDivisionError else Inr (a div b))"

definition py_mod :: "int \<Rightarrow> int \<Rightarrow> py_error + int" where
  "py_mod a b = (if b = 0 then Inl ZeroDivisionError else Inr (a mod b))"

definition py_truediv :: "int \<Rightarrow> int \<Rightarrow> py_error + pyfloat" where
  "py_truediv a b =
     (if b = 0 then Inl ZeroDivisionError
      else (case round_ratio ((a < 0) \<noteq> (b < 0)) (nat \<bar>a\<bar>) (nat \<bar>b\<bar>) of
              Infinity s \<Rightarrow> Inl OverflowError
            | x \<Rightarrow> Inr x))"

text \<open>\<open>a ** b\<close> on ints for an exponent that is not negative: the exact integer. (With a
  negative exponent Python returns a float; the scripts have no such power.)\<close>

definition py_pow :: "int \<Rightarrow> nat \<Rightarrow> int" where
  "py_pow a b = a ^ b"

text \<open>\<open>s * n\<close> on a string: \<open>n\<close> copies, none for \<open>n \<le> 0\<close>.\<close>

definition str_mul :: "'c list \<Rightarrow> int \<Rightarrow> 'c list" where
  "str_mul s n = concat (replicate (nat n) s)"

function range_up :: "int \<Rightarrow> int \<Rightarrow> int \<Rightarrow> int list" where
  "range_up start stop step =
     (if 0 < step \<and> start < stop then start # range_up (start + step) stop step else [])"
  by pat_completeness auto
termination
  by (relation "measure (\<lambda>(start, stop, step). nat (stop - start))") auto

function range_down :: "int \<Rightarrow> int \<Rightarrow> int \<Rightarrow> int list" where
  "range_down start stop step =
     (if step < 0 \<and> stop < start then start # range_down (start + step) stop step else [])"
  by pat_completeness auto
termination
  by (relation "measure (\<lambda>(start, stop, step). nat (start - stop))") auto

declare range_up.simps [simp del] range_down.simps [simp del]

definition py_range :: "int \<Rightarrow> int \<Rightarrow> int \<Rightarrow> py_error + int list" where
  "py_range start stop step =
     (if step = 0 then Inl ValueError
      else if 0 < step then Inr (range_up start stop step)
      else Inr (range_down start stop step))"

text \<open>A \<open>for\<close> loop whose body may raise: the state after the last element, or the first
  exception.\<close>

fun for_each :: "('s \<Rightarrow> 'a \<Rightarrow> py_error + 's) \<Rightarrow> 's \<Rightarrow> 'a list \<Rightarrow> py_error + 's" where
  "for_each body st [] = Inr st"
| "for_each body st (x # xs) = bind_err (body st x) (\<lambda>st'. for_each body st' xs)"

subsection \<open>Conversions: \<open>int(s)\<close> and \<open>int(x)\<close>\<close>

definition is_space :: "char \<Rightarrow> bool" where
  "is_space c =
     (c \<in> set [CHR '' '', CHR 0x09, CHR ''\<newline>'', CHR 0x0B, CHR 0x0C, CHR 0x0D,
                CHR 0x85, CHR 0xA0])"

definition py_strip :: "string \<Rightarrow> string" where
  "py_strip s = rev (dropWhile is_space (rev (dropWhile is_space s)))"

definition digit_val :: "char \<Rightarrow> nat option" where
  "digit_val c =
     (if (48::nat) \<le> of_char c \<and> of_char c \<le> (57::nat) then Some (of_char c - 48) else None)"

text \<open>Decimal digits, single underscores allowed between two digits.\<close>

fun parse_digits :: "nat \<Rightarrow> string \<Rightarrow> nat option" where
  "parse_digits acc [] = Some acc"
| "parse_digits acc [c] =
     (case digit_val c of None \<Rightarrow> None | Some v \<Rightarrow> Some (10 * acc + v))"
| "parse_digits acc (c # d # ds) =
     (if c = CHR ''_''
      then (case digit_val d of None \<Rightarrow> None | Some v \<Rightarrow> parse_digits (10 * acc + v) ds)
      else (case digit_val c of None \<Rightarrow> None | Some v \<Rightarrow> parse_digits (10 * acc + v) (d # ds)))"

definition parse_nat :: "string \<Rightarrow> nat option" where
  "parse_nat s =
     (case s of
        [] \<Rightarrow> None
      | c # cs \<Rightarrow> (case digit_val c of None \<Rightarrow> None | Some v \<Rightarrow> parse_digits v cs))"

text \<open>\<open>int(s)\<close> for a string in base ten: surrounding whitespace, an optional sign, digits.
  Anything else is a ValueError.\<close>

definition int_of_str :: "string \<Rightarrow> py_error + int" where
  "int_of_str s =
     (case py_strip s of
        [] \<Rightarrow> Inl ValueError
      | c # cs \<Rightarrow>
          if c = CHR ''-''
          then (case parse_nat cs of None \<Rightarrow> Inl ValueError | Some n \<Rightarrow> Inr (- int n))
          else if c = CHR ''+''
          then (case parse_nat cs of None \<Rightarrow> Inl ValueError | Some n \<Rightarrow> Inr (int n))
          else (case parse_nat (c # cs) of None \<Rightarrow> Inl ValueError | Some n \<Rightarrow> Inr (int n)))"

text \<open>\<open>int(x)\<close> for a float: the fraction is dropped, so the result is the integer next to
  \<open>x\<close> in the direction of zero.\<close>

fun int_of_float :: "pyfloat \<Rightarrow> py_error + int" where
  "int_of_float (Finite s m e) =
     Inr (signed s (if 0 \<le> e then m * 2 ^ nat e else m div 2 ^ nat (- e)))"
| "int_of_float (Infinity s) = Inl OverflowError"
| "int_of_float NaN = Inl ValueError"

subsection \<open>Slices: \<open>s[start:stop:step]\<close>\<close>

text \<open>
  A missing bound is \<open>None\<close>. A bound counts from the end when negative and is then
  clipped to the sequence, so a slice never raises for a bound out of range; only a step
  of zero is a ValueError.
\<close>

definition clip_bound :: "int \<Rightarrow> int \<Rightarrow> int \<Rightarrow> int \<Rightarrow> int" where
  "clip_bound n lowest highest i =
     (if i < 0 then (if i + n < lowest then lowest else i + n)
      else (if highest < i then highest else i))"

definition py_slice ::
  "'a list \<Rightarrow> int option \<Rightarrow> int option \<Rightarrow> int option \<Rightarrow> py_error + 'a list" where
  "py_slice s start stop step =
     (case (case step of None \<Rightarrow> 1 | Some k \<Rightarrow> k) of k \<Rightarrow>
        if k = 0 then Inl ValueError
        else if 0 < k
        then Inr (map (\<lambda>i. s ! nat i)
               (range_up
                  (case start of None \<Rightarrow> 0 | Some a \<Rightarrow> clip_bound (int (length s)) 0 (int (length s)) a)
                  (case stop of None \<Rightarrow> int (length s)
                   | Some b \<Rightarrow> clip_bound (int (length s)) 0 (int (length s)) b)
                  k))
        else Inr (map (\<lambda>i. s ! nat i)
               (range_down
                  (case start of None \<Rightarrow> int (length s) - 1
                   | Some a \<Rightarrow> clip_bound (int (length s)) (- 1) (int (length s) - 1) a)
                  (case stop of None \<Rightarrow> - 1
                   | Some b \<Rightarrow> clip_bound (int (length s)) (- 1) (int (length s) - 1) b)
                  k)))"

subsection \<open>\<open>float(s)\<close>\<close>

fun float_neg :: "pyfloat \<Rightarrow> pyfloat" where
  "float_neg (Finite s m e) = Finite (\<not> s) m e"
| "float_neg (Infinity s) = Infinity (\<not> s)"
| "float_neg NaN = NaN"

definition lower_char :: "char \<Rightarrow> char" where
  "lower_char c =
     (case map_of (zip ''ABCDEFGHIJKLMNOPQRSTUVWXYZ'' ''abcdefghijklmnopqrstuvwxyz'') c of
        None \<Rightarrow> c
      | Some l \<Rightarrow> l)"

text \<open>The text before the first character satisfying \<open>P\<close>, and the text after it if there
  is one.\<close>

definition split_first :: "(char \<Rightarrow> bool) \<Rightarrow> string \<Rightarrow> string \<times> string option" where
  "split_first P s =
     (takeWhile (\<lambda>c. \<not> P c) s,
      case dropWhile (\<lambda>c. \<not> P c) s of [] \<Rightarrow> None | c # cs \<Rightarrow> Some cs)"

text \<open>A run of digits that may be empty.\<close>

definition parse_nat_or_empty :: "string \<Rightarrow> nat option" where
  "parse_nat_or_empty s = (if s = [] then Some 0 else parse_nat s)"

definition count_digits :: "string \<Rightarrow> nat" where
  "count_digits s = length (filter (\<lambda>c. c \<noteq> CHR ''_'') s)"

text \<open>A signed decimal exponent: the text after \<open>e\<close>.\<close>

definition parse_exponent :: "string \<Rightarrow> int option" where
  "parse_exponent s =
     (case s of
        [] \<Rightarrow> None
      | c # cs \<Rightarrow>
          if c = CHR ''-'' then map_option (\<lambda>n. - int n) (parse_nat cs)
          else if c = CHR ''+'' then map_option int (parse_nat cs)
          else map_option int (parse_nat (c # cs)))"

text \<open>
  An unsigned decimal: digits, an optional point and more digits (one of the two runs may
  be empty, not both), an optional exponent. The value is the double nearest to it.
\<close>

definition parse_decimal :: "string \<Rightarrow> pyfloat option" where
  "parse_decimal s =
     (case split_first (\<lambda>c. c = CHR ''e'' \<or> c = CHR ''E'') s of
        (mantissa, exponent_text) \<Rightarrow>
          (case split_first (\<lambda>c. c = CHR ''.'') mantissa of
             (whole, fraction_text) \<Rightarrow>
               (case (parse_nat_or_empty whole,
                      parse_nat_or_empty (case fraction_text of None \<Rightarrow> [] | Some f \<Rightarrow> f),
                      case exponent_text of None \<Rightarrow> Some 0 | Some x \<Rightarrow> parse_exponent x) of
                  (Some w, Some f, Some x) \<Rightarrow>
                    if whole = [] \<and> (case fraction_text of None \<Rightarrow> True | Some f' \<Rightarrow> f' = [])
                    then None
                    else Some
                      (float_lit
                         (w * 10 ^ count_digits (case fraction_text of None \<Rightarrow> [] | Some f' \<Rightarrow> f')
                            + f)
                         (x - int (count_digits
                                     (case fraction_text of None \<Rightarrow> [] | Some f' \<Rightarrow> f'))))
                | other \<Rightarrow> None)))"

definition parse_unsigned_float :: "string \<Rightarrow> pyfloat option" where
  "parse_unsigned_float s =
     (if map lower_char s = ''inf'' \<or> map lower_char s = ''infinity'' then Some (Infinity False)
      else if map lower_char s = ''nan'' then Some NaN
      else parse_decimal s)"

text \<open>\<open>float(s)\<close>: surrounding whitespace, an optional sign, then \<open>inf\<close>, \<open>infinity\<close>,
  \<open>nan\<close> or a decimal. Anything else is a ValueError.\<close>

definition float_of_str :: "string \<Rightarrow> py_error + pyfloat" where
  "float_of_str s =
     (case py_strip s of
        [] \<Rightarrow> Inl ValueError
      | c # cs \<Rightarrow>
          if c = CHR ''-''
          then (case parse_unsigned_float cs of None \<Rightarrow> Inl ValueError | Some x \<Rightarrow> Inr (float_neg x))
          else if c = CHR ''+''
          then (case parse_unsigned_float cs of None \<Rightarrow> Inl ValueError | Some x \<Rightarrow> Inr x)
          else (case parse_unsigned_float (c # cs) of None \<Rightarrow> Inl ValueError | Some x \<Rightarrow> Inr x))"

subsection \<open>Integers in base 2, 8 and 16\<close>











subsection \<open>A precision given by a variable: \<open>f"{x:.{precision}f}"\<close>\<close>


subsection \<open>Dates and times\<close>















subsection \<open>Values, truth and \<open>repr\<close>\<close>

datatype pyval =
    VInt int
  | VFloat pyfloat
  | VStr string
  | VList "pyval list"
  | VDict "(pyval \<times> pyval) list"
  | VNone
  | VBool bool

text \<open>\<open>bool(v)\<close>, the test an \<open>if\<close> applies to \<open>v\<close>.\<close>

fun truthy :: "pyval \<Rightarrow> bool" where
  "truthy (VInt i) = (i \<noteq> 0)"
| "truthy (VFloat x) = (\<not> float_eq x (Finite False 0 0))"
| "truthy (VStr s) = (s \<noteq> [])"
| "truthy (VList xs) = (xs \<noteq> [])"
| "truthy (VDict kvs) = (kvs \<noteq> [])"
| "truthy VNone = False"
| "truthy (VBool b) = b"

text \<open>
  \<open>repr\<close> is given for the values whose text needs no digit generation and no escapes:
  a float with an integer value below \<open>10\<^sup>1\<^sup>6\<close> is its digits and \<open>.0\<close>, and a string of
  printable ASCII characters other than quote and backslash is the string in single quotes.
  On any other float or string the functions return \<open>None\<close>.
\<close>

fun repr_float :: "pyfloat \<Rightarrow> string option" where
  "repr_float (Finite s m e) =
     (if 0 \<le> e
      then (if m * 2 ^ nat e < 10 ^ 16
            then Some ((if s then ''-'' else []) @ nat_digits (m * 2 ^ nat e) @ ''.0'')
            else None)
      else (if m mod 2 ^ nat (- e) = 0 \<and> m div 2 ^ nat (- e) < 10 ^ 16
            then Some ((if s then ''-'' else []) @ nat_digits (m div 2 ^ nat (- e)) @ ''.0'')
            else None))"
| "repr_float (Infinity s) = Some (if s then ''-inf'' else ''inf'')"
| "repr_float NaN = Some ''nan''"

definition plain_char :: "char \<Rightarrow> bool" where
  "plain_char c =
     ((32::nat) \<le> of_char c \<and> of_char c < (127::nat) \<and> c \<noteq> CHR 0x27 \<and> c \<noteq> CHR 0x5C)"

definition repr_str :: "string \<Rightarrow> string option" where
  "repr_str s = (if list_all plain_char s then Some (CHR 0x27 # s @ [CHR 0x27]) else None)"

fun join :: "string \<Rightarrow> string list \<Rightarrow> string" where
  "join sep [] = []"
| "join sep [x] = x"
| "join sep (x # y # ys) = x @ sep @ join sep (y # ys)"

text \<open>The text of a dictionary entry, \<open>key: value\<close>.\<close>

fun repr_entry :: "string option \<times> string option \<Rightarrow> string option" where
  "repr_entry (Some a, Some b) = Some (a @ '': '' @ b)"
| "repr_entry (a, b) = None"

primrec repr :: "pyval \<Rightarrow> string option" where
  "repr (VInt i) = Some (str_int i)"
| "repr (VFloat x) = repr_float x"
| "repr (VStr s) = repr_str s"
| "repr (VList xs) = map_option (\<lambda>rs. ''['' @ join '', '' rs @ '']'') (those (map repr xs))"
| "repr (VDict kvs) =
     map_option (\<lambda>rs. ''{'' @ join '', '' rs @ ''}'')
       (those (map repr_entry (map (map_prod repr repr) kvs)))"
| "repr VNone = Some ''None''"
| "repr (VBool b) = Some (if b then ''True'' else ''False'')"

section \<open>hello.py\<close>

definition greet :: "string \<Rightarrow> string" where
  "greet name = ''Hello, '' @ name @ ''!''"

text \<open>\<open>sys.version_info\<close> is read from the interpreter that runs the script.\<close>

record version_info =
  major :: int
  minor :: int

definition hello_main :: "version_info \<Rightarrow> string \<Rightarrow> string" where
  "hello_main vi out0 =
     (let out1 = py_print out0 ''Hello, World!'';
          out2 = py_print out1 ''Welcome to Python 3.14!'';
          name = ''Python Learner'';
          message = greet name;
          out3 = py_print out2 message;
          result = (2::int) + 2;
          out4 = py_print out3 (''2 + 2 = '' @ str_int result);
          out5 = py_print out4
                   (''\<newline>You are using Python '' @ str_int (major vi) @ ''.''
                      @ str_int (minor vi))
      in out5)"

section \<open>types\_demo.py\<close>

subsection \<open>\<open>demo_integers\<close>\<close>

text \<open>
  The operations of \<open>demo_integers\<close> on its locals \<open>a, b = 15, 4\<close>, in the order of its
  print statements: \<open>a + b\<close>, \<open>a - b\<close>, \<open>a * b\<close>, \<open>a / b\<close>, \<open>a // b\<close>, \<open>a % b\<close>, \<open>a ** b\<close>.
\<close>

definition demo_integers_operations ::
  "py_error + (int \<times> int \<times> int \<times> pyfloat \<times> int \<times> int \<times> int)" where
  "demo_integers_operations =
     (let a = 15; b = 4
      in bind_err (py_truediv a b) (\<lambda>quotient.
         bind_err (py_floordiv a b) (\<lambda>floor_quotient.
         bind_err (py_mod a b) (\<lambda>remainder.
           Inr (a + b, a - b, a * b, quotient, floor_quotient, remainder, py_pow a (nat b))))))"

text \<open>
  The large-integer block: \<open>huge = 2**100\<close>, then the two lines
  \<open>f"\n2^100 = {huge}"\<close> and \<open>f"Length: {len(str(huge))} digits"\<close>.
\<close>

definition demo_integers_huge :: int where
  "demo_integers_huge = py_pow 2 100"

definition huge_lines :: "int \<Rightarrow> string list" where
  "huge_lines huge =
     [''\<newline>2^100 = '' @ str_int huge,
      ''Length: '' @ str_int (int (length (str_int huge))) @ '' digits'']"

subsection \<open>\<open>demo_strings\<close>: the slices\<close>

text \<open>\<open>text[:6]\<close>, \<open>text[-11:]\<close> and \<open>text[::-1]\<close> for \<open>text = "Python Programming"\<close>.\<close>

definition demo_strings_slices :: "py_error + (string \<times> string \<times> string)" where
  "demo_strings_slices =
     bind_err (py_slice ''Python Programming'' None (Some 6) None) (\<lambda>first_six.
     bind_err (py_slice ''Python Programming'' (Some (- 11)) None None) (\<lambda>last_eleven.
     bind_err (py_slice ''Python Programming'' None None (Some (- 1))) (\<lambda>reversed.
       Inr (first_six, last_eleven, reversed))))"

subsection \<open>\<open>demo_booleans\<close>: the truthiness tests\<close>

definition falsy_values :: "pyval list" where
  "falsy_values =
     [VInt 0, VFloat (float_lit 0 (- 1)), VStr [], VList [], VDict [], VNone, VBool False]"

definition truthy_values :: "pyval list" where
  "truthy_values =
     [VInt 1, VStr ''text'', VList [VInt 1], VDict [(VStr ''a'', VInt 1)], VBool True]"

text \<open>The line \<open>f"{repr(val):10} is falsy"\<close>: a string is padded on the right.\<close>

definition label_line :: "string \<Rightarrow> pyval \<Rightarrow> string option" where
  "label_line label val =
     map_option (\<lambda>r. ljust 10 CHR '' '' r @ '' is '' @ label) (repr val)"

text \<open>The two loops print one line for each value of their list, whatever the value.\<close>

definition falsy_lines :: "string option list" where
  "falsy_lines = map (label_line ''falsy'') falsy_values"

definition truthy_lines :: "string option list" where
  "truthy_lines = map (label_line ''truthy'') truthy_values"

subsection \<open>\<open>demo_type_conversion\<close>\<close>

text \<open>The conversions, in the order of the function: \<open>int(str_int)\<close> of \<open>"42"\<close>,
  \<open>float(str_float)\<close> of \<open>"3.14"\<close>, \<open>str(num)\<close> of \<open>100\<close> and \<open>int(f)\<close> of \<open>3.7\<close>.\<close>

definition demo_conversions :: "py_error + (int \<times> pyfloat \<times> string \<times> int)" where
  "demo_conversions =
     bind_err (int_of_str ''42'') (\<lambda>from_text.
     bind_err (float_of_str ''3.14'') (\<lambda>float_from_text.
     bind_err (int_of_float (float_lit 37 (- 1))) (\<lambda>truncated.
       Inr (from_text, float_from_text, str_int 100, truncated))))"

subsection \<open>\<open>demo_generics\<close>\<close>

text \<open>The local generic function \<open>first[T]\<close>: \<open>return items[0]\<close>.\<close>

definition first :: "'a list \<Rightarrow> py_error + 'a" where
  "first items = list_getitem items 0"

text \<open>The two call sites: \<open>first(numbers)\<close> and \<open>first(words)\<close>.\<close>

definition first_number :: "py_error + int" where
  "first_number = first [1, 2, 3]"

definition first_word :: "py_error + string" where
  "first_word = first [''hello'', ''world'']"

text \<open>The local generic class \<open>Box[T]\<close>.\<close>

record 'a Box =
  item :: 'a

definition Box_init :: "'a \<Rightarrow> 'a Box" where
  "Box_init item0 = \<lparr>item = item0\<rparr>"

definition Box_get :: "'a Box \<Rightarrow> 'a" where
  "Box_get self = item self"

definition Box_repr :: "('a \<Rightarrow> string) \<Rightarrow> 'a Box \<Rightarrow> string" where
  "Box_repr repr_item self = ''Box('' @ repr_item (item self) @ '')''"

section \<open>string\_formatting.py\<close>

subsection \<open>\<open>advanced_formatting\<close>\<close>







subsection \<open>\<open>practical_examples\<close>: the invoice\<close>

definition invoice_items :: "(string \<times> int \<times> pyfloat) list" where
  "invoice_items =
     [(''Python Programming Book'', 2, float_lit 2999 (- 2)),
      (''Code Editor License'', 1, float_lit 4999 (- 2)),
      (''Online Course'', 1, float_lit 8999 (- 2))]"

text \<open>
  The body of the loop, on the output so far and the running \<open>subtotal\<close>:
  \<open>total = qty * price\<close>, \<open>subtotal += total\<close>, and the row
  \<open>f"{item:<25} {qty:>5} ${price:>9.2f} ${total:>9.2f}"\<close>.
\<close>

fun invoice_row ::
  "string \<times> pynum \<Rightarrow> string \<times> int \<times> pyfloat \<Rightarrow> py_error + string \<times> pynum" where
  "invoice_row (out, subtotal) (item_name, qty, price) =
     bind_err (num_mul (PInt qty) (PFloat price)) (\<lambda>total.
     bind_err (num_add subtotal total) (\<lambda>subtotal'.
     bind_err (format_num_fixed 9 2 (PFloat price)) (\<lambda>price_text.
     bind_err (format_num_fixed 9 2 total) (\<lambda>total_text.
       Inr (py_print out
              (ljust 25 CHR '' '' item_name @ '' '' @ rjust 5 CHR '' '' (str_int qty)
                 @ '' $'' @ price_text @ '' $'' @ total_text),
            subtotal')))))"

text \<open>\<open>subtotal = 0\<close> and the loop over the items.\<close>

definition invoice_loop :: "string \<Rightarrow> py_error + string \<times> pynum" where
  "invoice_loop out = for_each invoice_row (out, PInt 0) invoice_items"

text \<open>The value of \<open>subtotal\<close> when the loop has ended.\<close>

definition invoice_subtotal :: "py_error + pynum" where
  "invoice_subtotal = bind_err (invoice_loop []) (\<lambda>(out, subtotal). Inr subtotal)"

text \<open>\<open>tax = subtotal * 0.085\<close> and \<open>total = subtotal + tax\<close>.\<close>

definition invoice_tax :: "pynum \<Rightarrow> py_error + pynum" where
  "invoice_tax subtotal = num_mul subtotal (PFloat (float_lit 85 (- 3)))"

definition invoice_total :: "pynum \<Rightarrow> pynum \<Rightarrow> py_error + pynum" where
  "invoice_total subtotal tax = num_add subtotal tax"

text \<open>A summary line \<open>f"{label:<42} ${amount:>9.2f}"\<close>.\<close>

definition summary_line :: "string \<Rightarrow> pynum \<Rightarrow> py_error + string" where
  "summary_line label amount =
     bind_err (format_num_fixed 9 2 amount) (\<lambda>amount_text.
       Inr (ljust 42 CHR '' '' label @ '' $'' @ amount_text))"

text \<open>The invoice block of \<open>practical_examples\<close>, from its heading to the total line.\<close>

definition invoice :: "string \<Rightarrow> py_error + string" where
  "invoice out0 =
     bind_err
       (invoice_loop
          (py_print
             (py_print (py_print out0 ''\<newline>--- Invoice ---'')
                (ljust 25 CHR '' '' ''Item'' @ '' '' @ rjust 5 CHR '' '' ''Qty'' @ '' ''
                   @ rjust 10 CHR '' '' ''Price'' @ '' '' @ rjust 10 CHR '' '' ''Total''))
             (str_mul ''-'' 52)))
       (\<lambda>(out1, subtotal).
          bind_err (invoice_tax subtotal) (\<lambda>tax.
          bind_err (invoice_total subtotal tax) (\<lambda>total.
          bind_err (summary_line ''Subtotal:'' subtotal) (\<lambda>subtotal_line.
          bind_err (summary_line ''Tax (8.5%):'' tax) (\<lambda>tax_line.
          bind_err (summary_line ''Total:'' total) (\<lambda>total_line.
            Inr (py_print
                   (py_print (py_print (py_print out1 (str_mul ''-'' 52)) subtotal_line)
                      tax_line)
                   total_line)))))))"

subsection \<open>\<open>practical_examples\<close>: the progress bar\<close>

text \<open>
  The bar is drawn with the block characters U+2588 and U+2591, so the text written by
  this loop is a list of code points; \<open>ascii\<close> gives the code points of an ASCII string.
\<close>

type_synonym ustring = "nat list"

definition ascii :: "string \<Rightarrow> ustring" where
  "ascii s = map of_char s"

definition full_block :: nat where
  "full_block = 0x2588"

definition light_shade :: nat where
  "light_shade = 0x2591"

text \<open>\<open>filled = i // 2\<close> and \<open>bar = "\<dots>" * filled + "\<dots>" * (50 - filled)\<close>.\<close>

definition progress_bar :: "int \<Rightarrow> py_error + ustring" where
  "progress_bar i =
     bind_err (py_floordiv i 2) (\<lambda>filled.
       Inr (str_mul [full_block] filled @ str_mul [light_shade] (50 - filled)))"

text \<open>What one iteration writes: \<open>print(f"\r[{bar}] {i:>3}%", end="")\<close>.\<close>

definition progress_text :: "int \<Rightarrow> py_error + ustring" where
  "progress_text i =
     bind_err (progress_bar i) (\<lambda>bar.
       Inr (ascii [CHR 0x0D, CHR ''[''] @ bar @ ascii ''] ''
              @ rjust 3 (of_char CHR '' '') (ascii (str_int i)) @ ascii ''%''))"

definition progress_step :: "ustring \<Rightarrow> int \<Rightarrow> py_error + ustring" where
  "progress_step out i = bind_err (progress_text i) (\<lambda>t. Inr (py_print_end out t []))"

text \<open>The loop over \<open>range(0, 101, 10)\<close> and the closing \<open>print()\<close>.\<close>

definition progress_loop :: "ustring \<Rightarrow> py_error + ustring" where
  "progress_loop out0 =
     bind_err (py_range 0 101 10) (\<lambda>percentages.
     bind_err (for_each progress_step out0 percentages) (\<lambda>out1.
       Inr (out1 @ ascii ''\<newline>'')))"

subsection \<open>\<open>number_formatting\<close>\<close>

text \<open>\<open>int(large_num)\<close> for \<open>large_num = 1234567.89\<close>.\<close>

definition number_formatting_as_integer :: "py_error + int" where
  "number_formatting_as_integer = int_of_float (float_lit 123456789 (- 2))"

section \<open>Properties\<close>

lemma str_int_4: "str_int 4 = ''4''"
  by (simp add: str_int_def nat_digits.simps digit_char_def)

text \<open>
  Claim C2. Running \<open>main\<close> of hello.py on an empty standard output prints
  \<open>Hello, World!\<close> as its first line, \<open>Welcome to Python 3.14!\<close> as its second, then
  the result of \<open>greet\<close> on \<open>Python Learner\<close>, which is \<open>Hello, Python Learner!\<close>, and
  then the line \<open>2 + 2 = 4\<close>, whatever interpreter version is reported afterwards.
\<close>

theorem hello_main_first_lines:
  "greet ''Python Learner'' = ''Hello, Python Learner!''
   \<and> take 4 (output_lines (hello_main vi [])) =
       [''Hello, World!'', ''Welcome to Python 3.14!'', ''Hello, Python Learner!'', ''2 + 2 = 4'']"
  by (simp add: hello_main_def py_print_def greet_def output_lines_def str_int_4)

subsection \<open>Evaluation helpers\<close>

lemma replicate_numeral: "replicate (numeral v) x = x # replicate (numeral v - 1) x"
  by (simp add: numeral_eq_Suc)

lemmas float_eval = float_lit_def round_ratio_def bitlen.simps scale2_def round_half_even_def
  signed_def float_add.simps float_mul.simps

lemmas digits_eval = str_int_def nat_digits.simps digit_char_def

subsection \<open>The generic function and the generic class\<close>

text \<open>
  Claim C8. \<open>Box\<close> is an identity wrapper: for an item of any type, \<open>Box(item).get()\<close> is
  that item; and \<open>first\<close> applied to any non-empty list \<open>x # xs\<close>, of any element type,
  returns its first element \<open>x\<close>.
\<close>

theorem box_and_first_roundtrip: "Box_get (Box_init x) = x \<and> first (x # xs) = Inr x"
  by (simp add: Box_get_def Box_init_def first_def list_getitem_def)

text \<open>
  Claim C9. \<open>first(items)\<close> raises IndexError on the empty list and returns the first
  element of every other list, so it fails exactly when \<open>items\<close> is empty; the two call
  sites of the demo pass the non-empty lists \<open>[1, 2, 3]\<close> and \<open>["hello", "world"]\<close> and
  return \<open>1\<close> and \<open>"hello"\<close>.
\<close>

theorem first_fails_iff_empty:
  "first items = (case items of [] \<Rightarrow> Inl IndexError | x # xs \<Rightarrow> Inr x)
   \<and> (first items = Inl IndexError) = (items = [])
   \<and> first_number = Inr 1 \<and> first_word = Inr ''hello''"
  by (cases items) (simp_all add: first_def list_getitem_def first_number_def first_word_def)

subsection \<open>Large integers\<close>

lemma digits_huge:
  "nat_digits 1267650600228229401496703205376 = ''1267650600228229401496703205376''"
  by (simp add: nat_digits.simps digit_char_def)

lemma length_huge: "length ''1267650600228229401496703205376'' = 31"
  by simp

lemma str_int_31: "str_int 31 = ''31''"
  by (simp add: digits_eval)

text \<open>
  Claim C10. \<open>demo_integers\<close> computes \<open>2**100\<close> exactly, as the integer
  1267650600228229401496703205376, and the line it prints for the length of the decimal
  text of that integer is \<open>Length: 31 digits\<close>.
\<close>

theorem huge_value_and_length:
  "demo_integers_huge = 1267650600228229401496703205376
   \<and> str_int demo_integers_huge = ''1267650600228229401496703205376''
   \<and> length (str_int demo_integers_huge) = 31
   \<and> huge_lines demo_integers_huge =
       [''\<newline>2^100 = 1267650600228229401496703205376'', ''Length: 31 digits'']"
proof -
  have pow: "demo_integers_huge = 1267650600228229401496703205376"
    by (simp add: demo_integers_huge_def py_pow_def)
  have shown: "str_int 1267650600228229401496703205376 = ''1267650600228229401496703205376''"
    by (simp add: str_int_def digits_huge)
  have "huge_lines 1267650600228229401496703205376 =
       [''\<newline>2^100 = 1267650600228229401496703205376'', ''Length: 31 digits'']"
    unfolding huge_lines_def shown length_huge
    by (simp add: str_int_31)
  with pow shown length_huge show ?thesis by simp
qed

subsection \<open>Type conversions\<close>

lemma lit_37: "float_lit 37 (- 1) = Finite False 8331659310635418 (- 51)"
  by (simp add: float_eval)

lemma lit_314: "float_lit 314 (- 2) = Finite False 7070651414971679 (- 51)"
  by (simp add: float_eval)

lemma float_314: "float_of_str ''3.14'' = Inr (Finite False 7070651414971679 (- 51))"
  by (simp add: float_of_str_def py_strip_def is_space_def parse_unsigned_float_def lower_char_def
      parse_decimal_def split_first_def parse_nat_or_empty_def parse_nat_def digit_val_def
      count_digits_def lit_314)

text \<open>
  Claim C4. In \<open>demo_type_conversion\<close>, \<open>int("42")\<close> is \<open>42\<close>, \<open>str(100)\<close> is the text
  \<open>100\<close>, and \<open>int(3.7)\<close> is \<open>3\<close>. The conversion drops the fraction, towards zero: the
  double \<open>-3.7\<close> (the same digits with the sign set) gives \<open>-3\<close>, not \<open>-4\<close>.
\<close>

theorem conversions_values:
  "demo_conversions = Inr (42, Finite False 7070651414971679 (- 51), ''100'', 3)
   \<and> int_of_str ''42'' = Inr 42
   \<and> str_int 100 = ''100''
   \<and> int_of_float (float_lit 37 (- 1)) = Inr 3
   \<and> int_of_float (Finite True 8331659310635418 (- 51)) = Inr (- 3)"
  by (simp add: demo_conversions_def bind_err_def int_of_str_def py_strip_def is_space_def
      parse_nat_def digit_val_def lit_37 signed_def digits_eval float_314)

subsection \<open>Truthiness\<close>

lemma lit_zero: "float_lit 0 (- 1) = Finite False 0 0"
  by (simp add: float_eval)

text \<open>
  Claim C3. The first loop of the truthiness tests prints an \<open>is falsy\<close> line for each of
  \<open>0\<close>, \<open>0.0\<close>, \<open>''\<close>, \<open>[]\<close>, \<open>{}\<close>, \<open>None\<close>, \<open>False\<close> and for nothing else, the second
  an \<open>is truthy\<close> line for each of \<open>1\<close>, \<open>'text'\<close>, \<open>[1]\<close>, \<open>{'a': 1}\<close>, \<open>True\<close> and for
  nothing else; every value of the first list converts to false and every value of the
  second to true.
\<close>

theorem truthiness_labels:
  "falsy_values =
     [VInt 0, VFloat (Finite False 0 0), VStr [], VList [], VDict [], VNone, VBool False]
   \<and> list_all (\<lambda>v. \<not> truthy v) falsy_values
   \<and> list_all truthy truthy_values
   \<and> falsy_lines =
       [Some ''0          is falsy'',
        Some ''0.0        is falsy'',
        Some (CHR 0x27 # CHR 0x27 # ''         is falsy''),
        Some ''[]         is falsy'',
        Some ''{}         is falsy'',
        Some ''None       is falsy'',
        Some ''False      is falsy'']
   \<and> truthy_lines =
       [Some ''1          is truthy'',
        Some (CHR 0x27 # ''text'' @ CHR 0x27 # ''     is truthy''),
        Some ''[1]        is truthy'',
        Some (''{'' @ CHR 0x27 # ''a'' @ CHR 0x27 # '': 1}   is truthy''),
        Some ''True       is truthy'']"
  by (simp add: falsy_values_def truthy_values_def falsy_lines_def truthy_lines_def
      label_line_def ljust_def repr_str_def plain_char_def lit_zero replicate_numeral digits_eval)

subsection \<open>The progress bar\<close>

lemma range_percentages: "py_range 0 101 10 = Inr [0, 10, 20, 30, 40, 50, 60, 70, 80, 90, 100]"
  by (simp add: py_range_def range_up.simps)

lemmas progress_eval = progress_bar_def progress_text_def bind_err_def py_floordiv_def
  py_print_end_def
  str_mul_def full_block_def light_shade_def ascii_def rjust_def digits_eval replicate_numeral

lemma progress_iteration:
  assumes "i \<in> {0, 10, 20, 30, 40, 50, 60, 70, 80, 90, 100}"
  shows "progress_bar i =
           Inr (replicate (nat (i div 2)) full_block @ replicate (nat (50 - i div 2)) light_shade)
         \<and> length (replicate (nat (i div 2)) full_block
              @ replicate (nat (50 - i div 2)) light_shade) = 50
         \<and> progress_text i =
           Inr (ascii [CHR 0x0D, CHR ''['']
                @ (replicate (nat (i div 2)) full_block
                   @ replicate (nat (50 - i div 2)) light_shade)
                @ ascii ''] '' @ rjust 3 32 (ascii (str_int i)) @ ascii ''%'')
         \<and> length (rjust 3 32 (ascii (str_int i))) = (3::nat)
         \<and> (case progress_text i of Inl err \<Rightarrow> False | Inr t \<Rightarrow> hd t = 13 \<and> 10 \<notin> set t)"
  using assms by (elim insertE emptyE) (simp_all add: progress_eval)

lemma progress_step_appends:
  "progress_text i = Inr t \<Longrightarrow> progress_step out i = Inr (out @ t)"
  by (simp add: progress_step_def bind_err_def py_print_end_def)

lemma for_each_progress_step:
  "list_all (\<lambda>i. \<exists>t. progress_text i = Inr t) percentages \<Longrightarrow>
   for_each progress_step out percentages
     = Inr (out @ concat (map (\<lambda>i. projr (progress_text i)) percentages))"
proof (induction percentages arbitrary: out)
  case Nil
  then show ?case by simp
next
  case (Cons i percentages)
  then obtain t where t: "progress_text i = Inr t" by auto
  from Cons have "for_each progress_step (out @ t) percentages
      = Inr ((out @ t) @ concat (map (\<lambda>i. projr (progress_text i)) percentages))"
    by simp
  with t show ?case
    by (simp add: bind_err_def progress_step_appends)
qed

lemma progress_texts:
  "list_all (\<lambda>i. \<exists>t. progress_text i = Inr t \<and> hd t = 13 \<and> 10 \<notin> set t)
     [0, 10, 20, 30, 40, 50, 60, 70, 80, 90, 100]"
proof -
  have "\<exists>t. progress_text i = Inr t \<and> hd t = 13 \<and> 10 \<notin> set t"
    if "i \<in> {0, 10, 20, 30, 40, 50, 60, 70, 80, 90, 100}" for i
    using progress_iteration [OF that] by (cases "progress_text i") simp_all
  then show ?thesis by simp
qed

lemma progress_loop_result:
  "progress_loop out =
     Inr (out @ concat (map (\<lambda>i. projr (progress_text i))
                          [0, 10, 20, 30, 40, 50, 60, 70, 80, 90, 100])
           @ ascii ''\<newline>'')"
proof -
  have "list_all (\<lambda>i. \<exists>t. progress_text i = Inr t) [0, 10, 20, 30, 40, 50, 60, 70, 80, 90, 100]"
    using progress_texts by (simp add: list_all_iff) blast
  from for_each_progress_step [OF this] show ?thesis
    by (simp add: progress_loop_def range_percentages bind_err_def)
qed

text \<open>
  Claim C5. For every percentage \<open>i\<close> of the loop \<open>range(0, 101, 10)\<close>, the bar is
  \<open>i // 2\<close> full blocks followed by \<open>50 - i // 2\<close> light blocks, 50 characters in all;
  the text of the iteration is a carriage return, the bar in brackets, and the percentage
  right-aligned in a field of 3 characters before the percent sign; it begins with the
  carriage return and contains no newline. The \<open>print\<close> of the iteration appends exactly
  this text to the output, and the whole loop writes the texts of its iterations one after
  the other, none with a newline, followed by the single newline of the closing \<open>print()\<close>.
\<close>

theorem progress_bar_shape:
  assumes "py_range 0 101 10 = Inr percentages" and "i \<in> set percentages"
  shows "progress_bar i =
           Inr (replicate (nat (i div 2)) full_block @ replicate (nat (50 - i div 2)) light_shade)
         \<and> length (replicate (nat (i div 2)) full_block
              @ replicate (nat (50 - i div 2)) light_shade) = 50
         \<and> progress_text i =
           Inr (ascii [CHR 0x0D, CHR ''['']
                @ (replicate (nat (i div 2)) full_block
                   @ replicate (nat (50 - i div 2)) light_shade)
                @ ascii ''] '' @ rjust 3 32 (ascii (str_int i)) @ ascii ''%'')
         \<and> length (rjust 3 32 (ascii (str_int i))) = (3::nat)
         \<and> (case progress_text i of Inl err \<Rightarrow> False | Inr t \<Rightarrow> hd t = 13 \<and> 10 \<notin> set t)
         \<and> progress_step out i =
           Inr (out @ ascii [CHR 0x0D, CHR ''['']
                @ (replicate (nat (i div 2)) full_block
                   @ replicate (nat (50 - i div 2)) light_shade)
                @ ascii ''] '' @ rjust 3 32 (ascii (str_int i)) @ ascii ''%'')
         \<and> (\<exists>texts. map Inr texts = map progress_text percentages
                \<and> list_all (\<lambda>t. hd t = 13 \<and> 10 \<notin> set t) texts
                \<and> progress_loop out = Inr (out @ concat texts @ [10]))"
proof -
  from assms have range: "percentages = [0, 10, 20, 30, 40, 50, 60, 70, 80, 90, 100]"
    and i: "i \<in> {0, 10, 20, 30, 40, 50, 60, 70, 80, 90, 100}"
    by (auto simp add: range_percentages)
  note iteration = progress_iteration [OF i]
  from iteration have step: "progress_step out i =
           Inr (out @ ascii [CHR 0x0D, CHR ''['']
                @ (replicate (nat (i div 2)) full_block
                   @ replicate (nat (50 - i div 2)) light_shade)
                @ ascii ''] '' @ rjust 3 32 (ascii (str_int i)) @ ascii ''%'')"
    by (simp add: progress_step_appends)
  define texts where "texts = map (\<lambda>i. projr (progress_text i)) percentages"
  have each: "list_all (\<lambda>i. \<exists>t. progress_text i = Inr t \<and> hd t = 13 \<and> 10 \<notin> set t) percentages"
    unfolding range by (rule progress_texts)
  then have "map Inr texts = map progress_text percentages"
    and "list_all (\<lambda>t. hd t = 13 \<and> 10 \<notin> set t) texts"
    unfolding texts_def by (auto simp add: list_all_iff)
  moreover have "progress_loop out = Inr (out @ concat texts @ [10])"
    unfolding texts_def range by (simp add: progress_loop_result ascii_def)
  ultimately have "\<exists>texts. map Inr texts = map progress_text percentages
                \<and> list_all (\<lambda>t. hd t = 13 \<and> 10 \<notin> set t) texts
                \<and> progress_loop out = Inr (out @ concat texts @ [10])"
    by blast
  with iteration step show ?thesis by blast
qed

theorem progress_bar_shape_witness:
  "py_range 0 101 10 = Inr [0, 10, 20, 30, 40, 50, 60, 70, 80, 90, 100]
   \<and> (50::int) \<in> set [0, 10, 20, 30, 40, 50, 60, 70, 80, 90, 100]
   \<and> progress_bar 50 = Inr (replicate 25 full_block @ replicate 25 light_shade)
   \<and> progress_text 50 =
       Inr (ascii [CHR 0x0D, CHR ''['']
            @ (replicate 25 full_block @ replicate 25 light_shade)
            @ ascii ''] '' @ ascii '' 50'' @ ascii ''%'')
   \<and> progress_step [] 50 =
       Inr (ascii [CHR 0x0D, CHR ''['']
            @ (replicate 25 full_block @ replicate 25 light_shade)
            @ ascii ''] '' @ ascii '' 50'' @ ascii ''%'')"
proof -
  have r: "py_range 0 101 10 = Inr [0, 10, 20, 30, 40, 50, 60, 70, 80, 90, 100]"
    by (rule range_percentages)
  have m: "(50::int) \<in> set [0, 10, 20, 30, 40, 50, 60, 70, 80, 90, 100]"
    by simp
  from progress_bar_shape [OF r m, of "[]"] r m show ?thesis
    by (simp add: rjust_def ascii_def digits_eval replicate_numeral)
qed

subsection \<open>The invoice\<close>

lemma lit_2999: "float_lit 2999 (- 2) = Finite False 8441434551552573 (- 48)"
  by (simp add: float_eval)

lemma lit_4999: "float_lit 4999 (- 2) = Finite False 7035467042882847 (- 47)"
  by (simp add: float_eval)

lemma lit_8999: "float_lit 8999 (- 2) = Finite False 6332483288547983 (- 46)"
  by (simp add: float_eval)

lemma lit_85: "float_lit 85 (- 3) = Finite False 6124895493223875 (- 56)"
  by (simp add: float_eval)

lemma lit_19996: "float_lit 19996 (- 2) = Finite False 7035467042882847 (- 45)"
  by (simp add: float_eval)

lemma lit_169966: "float_lit 169966 (- 4) = Finite False 4784117589160336 (- 48)"
  by (simp add: float_eval)

lemma float_of_int_0: "float_of_int 0 = Inr (Finite False 0 0)"
  by (simp add: float_of_int_def float_eval)

lemma float_of_int_1: "float_of_int 1 = Inr (Finite False 4503599627370496 (- 52))"
  by (simp add: float_of_int_def float_eval)

lemma float_of_int_2: "float_of_int 2 = Inr (Finite False 4503599627370496 (- 51))"
  by (simp add: float_of_int_def float_eval)

text \<open>The three products \<open>qty * price\<close>.\<close>

lemma total_1:
  "float_mul (Finite False 4503599627370496 (- 51)) (Finite False 8441434551552573 (- 48))
     = Finite False 8441434551552573 (- 47)"
  by (simp add: float_eval)

lemma total_2:
  "float_mul (Finite False 4503599627370496 (- 52)) (Finite False 7035467042882847 (- 47))
     = Finite False 7035467042882847 (- 47)"
  by (simp add: float_eval)

lemma total_3:
  "float_mul (Finite False 4503599627370496 (- 52)) (Finite False 6332483288547983 (- 46))
     = Finite False 6332483288547983 (- 46)"
  by (simp add: float_eval)

lemma price_times_two:
  "float_mul (Finite False 8441434551552573 (- 48)) (Finite False 4503599627370496 (- 51))
     = Finite False 8441434551552573 (- 47)"
  by (simp add: float_eval)

text \<open>The three additions \<open>subtotal += total\<close>; the last one rounds down.\<close>

lemma subtotal_1:
  "float_add (Finite False 0 0) (Finite False 8441434551552573 (- 47))
     = Finite False 8441434551552573 (- 47)"
  by (simp add: float_eval)

lemma subtotal_2:
  "float_add (Finite False 8441434551552573 (- 47)) (Finite False 7035467042882847 (- 47))
     = Finite False 7738450797217710 (- 46)"
  by (simp add: float_eval)

lemma subtotal_3:
  "float_add (Finite False 7738450797217710 (- 46)) (Finite False 6332483288547983 (- 46))
     = Finite False 7035467042882846 (- 45)"
  by (simp add: float_eval)

lemma tax_value:
  "float_mul (Finite False 7035467042882846 (- 45)) (Finite False 6124895493223875 (- 56))
     = Finite False 4784117589160336 (- 48)"
  by (simp add: float_eval)

lemma total_value:
  "float_add (Finite False 7035467042882846 (- 45)) (Finite False 4784117589160336 (- 48))
     = Finite False 7633481741527888 (- 45)"
  by (simp add: float_eval)

lemmas fixed_eval = format_num_fixed_def bind_err_def fixed_digits_def insert_point_def rjust_def
  scale2_def round_half_even_def nat_digits.simps digit_char_def replicate_numeral

lemma fixed_2999:
  "format_num_fixed 9 2 (PFloat (Finite False 8441434551552573 (- 48))) = Inr ''    29.99''"
  by (simp add: fixed_eval)

lemma fixed_4999:
  "format_num_fixed 9 2 (PFloat (Finite False 7035467042882847 (- 47))) = Inr ''    49.99''"
  by (simp add: fixed_eval)

lemma fixed_8999:
  "format_num_fixed 9 2 (PFloat (Finite False 6332483288547983 (- 46))) = Inr ''    89.99''"
  by (simp add: fixed_eval)

lemma fixed_5998:
  "format_num_fixed 9 2 (PFloat (Finite False 8441434551552573 (- 47))) = Inr ''    59.98''"
  by (simp add: fixed_eval)

lemma fixed_subtotal:
  "format_num_fixed 9 2 (PFloat (Finite False 7035467042882846 (- 45))) = Inr ''   199.96''"
  by (simp add: fixed_eval)

lemma fixed_tax:
  "format_num_fixed 9 2 (PFloat (Finite False 4784117589160336 (- 48))) = Inr ''    17.00''"
  by (simp add: fixed_eval)

lemma fixed_total:
  "format_num_fixed 9 2 (PFloat (Finite False 7633481741527888 (- 45))) = Inr ''   216.96''"
  by (simp add: fixed_eval)

lemmas row_eval = bind_err_def py_print_def ljust_def rjust_def digits_eval replicate_numeral

lemma row_1:
  "invoice_row (out, PInt 0) (''Python Programming Book'', 2, Finite False 8441434551552573 (- 48))
     = Inr (out @ ''Python Programming Book       2 $    29.99 $    59.98\<newline>'',
            PFloat (Finite False 8441434551552573 (- 47)))"
  by (simp add: row_eval float_of_int_0 float_of_int_2 total_1 subtotal_1 fixed_2999 fixed_5998)

lemma row_2:
  "invoice_row (out, PFloat (Finite False 8441434551552573 (- 47)))
       (''Code Editor License'', 1, Finite False 7035467042882847 (- 47))
     = Inr (out @ ''Code Editor License           1 $    49.99 $    49.99\<newline>'',
            PFloat (Finite False 7738450797217710 (- 46)))"
  by (simp add: row_eval float_of_int_1 total_2 subtotal_2 fixed_4999)

lemma row_3:
  "invoice_row (out, PFloat (Finite False 7738450797217710 (- 46)))
       (''Online Course'', 1, Finite False 6332483288547983 (- 46))
     = Inr (out @ ''Online Course                 1 $    89.99 $    89.99\<newline>'',
            PFloat (Finite False 7035467042882846 (- 45)))"
  by (simp add: row_eval float_of_int_1 total_3 subtotal_3 fixed_8999)

lemma invoice_loop_result:
  "invoice_loop out =
     Inr (out @ ''Python Programming Book       2 $    29.99 $    59.98\<newline>''
              @ ''Code Editor License           1 $    49.99 $    49.99\<newline>''
              @ ''Online Course                 1 $    89.99 $    89.99\<newline>'',
          PFloat (Finite False 7035467042882846 (- 45)))"
  unfolding invoice_loop_def invoice_items_def lit_2999 lit_4999 lit_8999
  by (simp add: bind_err_def row_1 row_2 row_3 del: invoice_row.simps)

lemma invoice_subtotal_result:
  "invoice_subtotal = Inr (PFloat (Finite False 7035467042882846 (- 45)))"
  unfolding invoice_subtotal_def invoice_loop_result
  by (simp add: bind_err_def)

lemma invoice_tax_result:
  "invoice_tax (PFloat (Finite False 7035467042882846 (- 45)))
     = Inr (PFloat (Finite False 4784117589160336 (- 48)))"
  by (simp add: invoice_tax_def bind_err_def lit_85 tax_value)

lemma invoice_total_result:
  "invoice_total (PFloat (Finite False 7035467042882846 (- 45)))
       (PFloat (Finite False 4784117589160336 (- 48)))
     = Inr (PFloat (Finite False 7633481741527888 (- 45)))"
  by (simp add: invoice_total_def bind_err_def total_value)

lemma subtotal_line:
  "summary_line ''Subtotal:'' (PFloat (Finite False 7035467042882846 (- 45)))
     = Inr ''Subtotal:                                  $   199.96''"
  by (simp add: summary_line_def bind_err_def fixed_subtotal ljust_def replicate_numeral)

lemma tax_line:
  "summary_line ''Tax (8.5%):'' (PFloat (Finite False 4784117589160336 (- 48)))
     = Inr ''Tax (8.5%):                                $    17.00''"
  by (simp add: summary_line_def bind_err_def fixed_tax ljust_def replicate_numeral)

lemma total_line:
  "summary_line ''Total:'' (PFloat (Finite False 7633481741527888 (- 45)))
     = Inr ''Total:                                     $   216.96''"
  by (simp add: summary_line_def bind_err_def fixed_total ljust_def replicate_numeral)

lemma invoice_output:
  "invoice [] =
     Inr (''\<newline>--- Invoice ---\<newline>''
          @ ''Item                        Qty      Price      Total\<newline>''
          @ ''----------------------------------------------------\<newline>''
          @ ''Python Programming Book       2 $    29.99 $    59.98\<newline>''
          @ ''Code Editor License           1 $    49.99 $    49.99\<newline>''
          @ ''Online Course                 1 $    89.99 $    89.99\<newline>''
          @ ''----------------------------------------------------\<newline>''
          @ ''Subtotal:                                  $   199.96\<newline>''
          @ ''Tax (8.5%):                                $    17.00\<newline>''
          @ ''Total:                                     $   216.96\<newline>'')"
  unfolding invoice_def invoice_loop_result
  by (simp add: bind_err_def invoice_tax_result invoice_total_result subtotal_line tax_line
      total_line py_print_def ljust_def rjust_def str_mul_def replicate_numeral)

text \<open>
  Claim C1, as stated, fails on the code: the subtotal accumulated by the loop is not the
  double \<open>199.96\<close> but the double just below it, and its exact value
  \<open>7035467042882846 / 2\<^sup>4\<^sup>5\<close> is not the decimal \<open>199.96\<close> either.
\<close>

theorem invoice_subtotal_is_not_19996:
  "invoice_subtotal = Inr (PFloat (Finite False 7035467042882846 (- 45)))
   \<and> \<not> float_eq (Finite False 7035467042882846 (- 45)) (float_lit 19996 (- 2))
   \<and> (7035467042882846::int) * 100 \<noteq> 19996 * 2 ^ 45"
  by (simp add: invoice_subtotal_result lit_19996)

text \<open>
  Claim C1, amended. The subtotal accumulated over the three item rows is the double
  \<open>7035467042882846 / 2\<^sup>4\<^sup>5\<close> (199.95999999999998), which is also the value of the
  expression \<open>29.99*2 + 49.99 + 89.99\<close> in double arithmetic and is one unit in the last
  place below the double \<open>199.96\<close>; it is printed to two decimals as \<open>199.96\<close>. The tax
  \<open>subtotal * 0.085\<close> is the double \<open>16.9966\<close> and is printed to two decimals as \<open>17.00\<close>.
\<close>

theorem invoice_subtotal_and_tax:
  "invoice_subtotal = Inr (PFloat (Finite False 7035467042882846 (- 45)))
   \<and> float_add
        (float_add (float_mul (float_lit 2999 (- 2)) (Finite False 4503599627370496 (- 51)))
           (float_lit 4999 (- 2)))
        (float_lit 8999 (- 2))
      = Finite False 7035467042882846 (- 45)
   \<and> float_lit 19996 (- 2) = Finite False 7035467042882847 (- 45)
   \<and> summary_line ''Subtotal:'' (PFloat (Finite False 7035467042882846 (- 45)))
      = Inr ''Subtotal:                                  $   199.96''
   \<and> invoice_tax (PFloat (Finite False 7035467042882846 (- 45)))
      = Inr (PFloat (float_lit 169966 (- 4)))
   \<and> summary_line ''Tax (8.5%):'' (PFloat (float_lit 169966 (- 4)))
      = Inr ''Tax (8.5%):                                $    17.00''"
  by (simp add: invoice_subtotal_result lit_2999 lit_4999 lit_8999 price_times_two subtotal_2
      subtotal_3 lit_19996 lit_169966 subtotal_line tax_line invoice_tax_result)

subsection \<open>Operations that return on the inputs of the scripts\<close>

lemma lit_large: "float_lit 123456789 (- 2) = Finite False 5302428712241725 (- 32)"
  by (simp add: float_eval)

lemma as_integer_result: "number_formatting_as_integer = Inr 1234567"
  by (simp add: number_formatting_as_integer_def lit_large signed_def)

lemma truediv_15_4: "py_truediv 15 4 = Inr (Finite False 8444249301319680 (- 51))"
  by (simp add: py_truediv_def float_eval)

lemma demo_integers_result:
  "demo_integers_operations
     = Inr (19, 11, 60, Finite False 8444249301319680 (- 51), 3, 3, 50625)"
  by (simp add: demo_integers_operations_def bind_err_def truediv_15_4 py_floordiv_def py_mod_def
      py_pow_def)

lemma division_raises_iff:
  "py_truediv a 0 = Inl ZeroDivisionError
   \<and> (py_floordiv a b = Inl err) = (b = 0 \<and> err = ZeroDivisionError)
   \<and> (py_mod a b = Inl err) = (b = 0 \<and> err = ZeroDivisionError)"
  by (auto simp add: py_truediv_def py_floordiv_def py_mod_def)

lemma slices_result:
  "demo_strings_slices = Inr (''Python'', ''Programming'', ''gnimmargorP nohtyP'')"
  by (simp add: demo_strings_slices_def bind_err_def py_slice_def clip_bound_def range_up.simps
      range_down.simps)

lemma slice_raises_iff: "(py_slice s start stop step = Inl err) = (step = Some 0 \<and> err = ValueError)"
  by (cases step) (auto simp add: py_slice_def)

lemma demo_conversions_result:
  "demo_conversions = Inr (42, Finite False 7070651414971679 (- 51), ''100'', 3)"
  by (simp add: demo_conversions_def bind_err_def int_of_str_def py_strip_def is_space_def
      parse_nat_def digit_val_def lit_37 signed_def digits_eval float_314)

lemma first_calls: "first_number = Inr 1 \<and> first_word = Inr ''hello''"
  by (simp add: first_number_def first_word_def first_def list_getitem_def)

lemma progress_loop_returns: "\<exists>written. progress_loop [] = Inr written"
  by (simp add: progress_loop_result)

subsection \<open>The clock\<close>













end
